theory Spec2Isabelle
  imports Main "HOL-Library.Sublist"
begin

section \<open>The YAML reporter of k8s-reporter (reporter.go)\<close>

text \<open>
  The package reads Kubernetes resources through a dynamic client and renders them as YAML.
  Go's \<^verbatim>\<open>(value, error)\<close> results are pairs whose second component is an
  \<open>option\<close> (\<open>None\<close> is the \<^verbatim>\<open>nil\<close> error); pointers, interface values and slices that may
  be \<^verbatim>\<open>nil\<close> are \<open>option\<close>s as well. A call that dereferences \<^verbatim>\<open>nil\<close> or calls a method on
  a \<^verbatim>\<open>nil\<close> interface value does not return: it is the outcome \<open>Panic\<close>.
\<close>

subsection \<open>Results, errors and the collaborators' types\<close>

datatype 'a outcome = Panic | Return 'a

text \<open>
  The two package-level error values are created by \<^verbatim>\<open>errors.New\<close>, with the messages
  ``no dynamicCli set, use reporter.WithDynamicClient during initialization'' and
  ``no GroupVersionResource set, use reporter.WithGVRSchema during initialization''.
  Every other value of Go's \<^verbatim>\<open>error\<close> interface comes from the backing store or from the
  serializer; it is \<open>Foreign x\<close>.
\<close>

datatype 'x error =
    NoDynamicCliSetError
  | NoGroupVersionResourceSetError
  | Foreign 'x

text \<open>\<^verbatim>\<open>schema.GroupVersionResource\<close>, a struct of three strings.\<close>

record GroupVersionResource =
  Group :: string
  Version :: string
  Resource :: string

text \<open>
  \<^verbatim>\<open>unstructured.Unstructured\<close> wraps the untyped \<^verbatim>\<open>map[string]interface{}\<close> of one instance
  (the type \<open>'o\<close>); of \<^verbatim>\<open>unstructured.UnstructuredList\<close> the code reads the field
  \<^verbatim>\<open>Items\<close> only.
\<close>

record 'o Unstructured =
  Object :: 'o

record 'o UnstructuredList =
  Items :: "'o Unstructured list"

text \<open>
  \<^verbatim>\<open>dynamic.ResourceInterface\<close> (client-go v0.17: neither method takes a context),
  \<^verbatim>\<open>dynamic.NamespaceableResourceInterface\<close> and \<^verbatim>\<open>dynamic.Interface\<close>, each with the
  methods the code calls. \<open>'lo\<close> and \<open>'go\<close> are \<^verbatim>\<open>metav1.ListOptions\<close> and
  \<^verbatim>\<open>metav1.GetOptions\<close>. A method is the store's answer at the time of the call.
\<close>

record ('o, 'x, 'lo, 'go) ResourceInterface =
  ri_List :: "'lo \<Rightarrow> 'o UnstructuredList option \<times> 'x error option"
  ri_Get :: "string \<Rightarrow> 'go \<Rightarrow> 'o Unstructured option \<times> 'x error option"

record ('o, 'x, 'lo, 'go) NamespaceableResourceInterface =
  Namespace :: "string \<Rightarrow> ('o, 'x, 'lo, 'go) ResourceInterface option"

record ('o, 'x, 'lo, 'go) Interface =
  dyn_Resource ::
    "GroupVersionResource \<Rightarrow> ('o, 'x, 'lo, 'go) NamespaceableResourceInterface option"

text \<open>\<^verbatim>\<open>yaml.Marshal\<close>: the bytes and the error it returns for an untyped object.\<close>

type_synonym ('o, 'x) Marshal = "'o \<Rightarrow> string \<times> 'x error option"

subsection \<open>The reporter and its options\<close>

text \<open>
  \<^verbatim>\<open>dynamicCli\<close> is a pointer to an interface value: \<open>None\<close> is the \<^verbatim>\<open>nil\<close> pointer,
  \<open>Some None\<close> a pointer to a \<^verbatim>\<open>nil\<close> interface value.
\<close>

record ('o, 'x, 'lo, 'go) YamlReporter =
  dynamicCli :: "('o, 'x, 'lo, 'go) Interface option option"
  gvrSchema :: "GroupVersionResource option"
  resource :: "('o, 'x, 'lo, 'go) NamespaceableResourceInterface option"

text \<open>The zero value \<^verbatim>\<open>YamlReporter{}\<close>.\<close>

definition YamlReporter_zero :: "('o, 'x, 'lo, 'go) YamlReporter" where
  "YamlReporter_zero = \<lparr>dynamicCli = None, gvrSchema = None, resource = None\<rparr>"

text \<open>
  The interface \<^verbatim>\<open>Option\<close> has an unexported method, so its implementations are the two
  structs of the package.
\<close>

datatype ('o, 'x, 'lo, 'go) Option =
    dynCliOption (DynamicCli: "('o, 'x, 'lo, 'go) Interface option")
  | gvrOption (schema: GroupVersionResource)

definition dynCliOption_apply ::
  "('o, 'x, 'lo, 'go) Interface option \<Rightarrow> ('o, 'x, 'lo, 'go) YamlReporter
     \<Rightarrow> ('o, 'x, 'lo, 'go) YamlReporter" where
  "dynCliOption_apply d opts = opts\<lparr>dynamicCli := Some d\<rparr>"

definition gvrOption_apply ::
  "GroupVersionResource \<Rightarrow> ('o, 'x, 'lo, 'go) YamlReporter
     \<Rightarrow> ('o, 'x, 'lo, 'go) YamlReporter" where
  "gvrOption_apply g opts = opts\<lparr>gvrSchema := Some g\<rparr>"

text \<open>The dynamic dispatch of \<^verbatim>\<open>opt.apply(instance)\<close>.\<close>

fun Option_apply ::
  "('o, 'x, 'lo, 'go) Option \<Rightarrow> ('o, 'x, 'lo, 'go) YamlReporter
     \<Rightarrow> ('o, 'x, 'lo, 'go) YamlReporter" where
  "Option_apply (dynCliOption d) opts = dynCliOption_apply d opts"
| "Option_apply (gvrOption g) opts = gvrOption_apply g opts"

text \<open>Both constructors return a non-\<^verbatim>\<open>nil\<close> \<^verbatim>\<open>Option\<close>.\<close>

definition WithDynamicClient ::
  "('o, 'x, 'lo, 'go) Interface option \<Rightarrow> ('o, 'x, 'lo, 'go) Option option" where
  "WithDynamicClient dynamicCli' = Some (dynCliOption dynamicCli')"

definition WithGVRSchema :: "GroupVersionResource \<Rightarrow> ('o, 'x, 'lo, 'go) Option option" where
  "WithGVRSchema schema' = Some (gvrOption schema')"

definition checkConfig :: "('o, 'x, 'lo, 'go) YamlReporter \<Rightarrow> 'x error option" where
  "checkConfig r =
     (if dynamicCli r = None then Some NoDynamicCliSetError
      else if gvrSchema r = None then Some NoGroupVersionResourceSetError
      else None)"

text \<open>
  The loop of \<^verbatim>\<open>New\<close> over the variadic \<^verbatim>\<open>opts\<close>; an element of the slice may be the
  \<^verbatim>\<open>nil\<close> interface value, on which the method call panics.
\<close>

fun New_loop ::
  "('o, 'x, 'lo, 'go) Option option list \<Rightarrow> ('o, 'x, 'lo, 'go) YamlReporter
     \<Rightarrow> ('o, 'x, 'lo, 'go) YamlReporter outcome" where
  "New_loop [] instance = Return instance"
| "New_loop (None # opts) instance = Panic"
| "New_loop (Some opt # opts) instance = New_loop opts (Option_apply opt instance)"

definition New ::
  "('o, 'x, 'lo, 'go) Option option list
     \<Rightarrow> (('o, 'x, 'lo, 'go) YamlReporter \<times> 'x error option) outcome" where
  "New opts =
     (case New_loop opts YamlReporter_zero of
        Panic \<Rightarrow> Panic
      | Return instance \<Rightarrow>
          (case checkConfig instance of
             Some err \<Rightarrow> Return (YamlReporter_zero, Some err)
           | None \<Rightarrow>
               (case dynamicCli instance of
                  None \<Rightarrow> Panic
                | Some None \<Rightarrow> Panic
                | Some (Some cli) \<Rightarrow>
                    (case gvrSchema instance of
                       None \<Rightarrow> Panic
                     | Some gvr \<Rightarrow>
                         Return (instance\<lparr>resource := dyn_Resource cli gvr\<rparr>, None)))))"

subsection \<open>The read operations\<close>

text \<open>
  The loop of \<^verbatim>\<open>List\<close> over \<^verbatim>\<open>unstructuredList.Items\<close>; \<open>resources\<close> is the slice built so
  far. The results are \<^verbatim>\<open>([]string, error)\<close>, with \<open>None\<close> for the \<^verbatim>\<open>nil\<close> slice.
\<close>

fun List_loop ::
  "('o, 'x) Marshal \<Rightarrow> 'o Unstructured list \<Rightarrow> string list
     \<Rightarrow> (string list option \<times> 'x error option) outcome" where
  "List_loop marshal [] resources = Return (Some resources, None)"
| "List_loop marshal (item # items) resources =
     (case marshal (Object item) of
        (out, Some err) \<Rightarrow> Return (None, Some err)
      | (out, None) \<Rightarrow> List_loop marshal items (resources @ [out]))"

definition List ::
  "('o, 'x) Marshal \<Rightarrow> ('o, 'x, 'lo, 'go) YamlReporter \<Rightarrow> 'c \<Rightarrow> string \<Rightarrow> 'lo
     \<Rightarrow> (string list option \<times> 'x error option) outcome" where
  "List marshal r ctx namespace options =
     (case resource r of
        None \<Rightarrow> Panic
      | Some res \<Rightarrow>
          (case Namespace res namespace of
             None \<Rightarrow> Panic
           | Some ri \<Rightarrow>
               (case ri_List ri options of
                  (unstructuredList, err) \<Rightarrow>
                    (case err of
                       Some e \<Rightarrow> Return (None, Some e)
                     | None \<Rightarrow>
                         (case unstructuredList of
                            None \<Rightarrow> Panic
                          | Some ul \<Rightarrow> List_loop marshal (Items ul) [])))))"

definition Get ::
  "('o, 'x) Marshal \<Rightarrow> ('o, 'x, 'lo, 'go) YamlReporter \<Rightarrow> 'c \<Rightarrow> string \<Rightarrow> string \<Rightarrow> 'go
     \<Rightarrow> (string \<times> 'x error option) outcome" where
  "Get marshal r ctx name namespace options =
     (case resource r of
        None \<Rightarrow> Panic
      | Some res \<Rightarrow>
          (case Namespace res namespace of
             None \<Rightarrow> Panic
           | Some ri \<Rightarrow>
               (case ri_Get ri name options of
                  (unstructuredObj, err) \<Rightarrow>
                    (case err of
                       Some e \<Rightarrow> Return ('''', Some e)
                     | None \<Rightarrow>
                         (case unstructuredObj of
                            None \<Rightarrow> Panic
                          | Some obj \<Rightarrow>
                              (case marshal (Object obj) of
                                 (out, Some e) \<Rightarrow> Return ('''', Some e)
                               | (out, None) \<Rightarrow> Return (out, None)))))))"

subsection \<open>A small backing store\<close>

text \<open>
  A store in the manner of the one reporter\_test.go builds: objects are flat lists of
  fields, the serializer writes one \<open>key: value\<close> line per field and rejects the object
  without fields, and a client hands out the objects of a namespace.
\<close>

type_synonym ex_object = "(string \<times> string) list"

definition ex_newUnstructured ::
  "string \<Rightarrow> string \<Rightarrow> string \<Rightarrow> string \<Rightarrow> ex_object Unstructured" where
  "ex_newUnstructured apiVersion kind namespace name =
     \<lparr>Object = [(''apiVersion'', apiVersion), (''kind'', kind),
                 (''namespace'', namespace), (''name'', name)]\<rparr>"

definition ex_marshal :: "(ex_object, string) Marshal" where
  "ex_marshal obj =
     (if list_ex (\<lambda>(k, v). v = ''func()'') obj then ([], Some (Foreign ''unsupported type''))
      else (concat (map (\<lambda>(k, v). k @ '': '' @ v @ ''; '') obj), None))"

definition ex_resource ::
  "ex_object Unstructured list \<Rightarrow> (ex_object, string, unit, unit) ResourceInterface" where
  "ex_resource objects =
     \<lparr>ri_List = (\<lambda>_. (Some \<lparr>Items = objects\<rparr>, None)),
      ri_Get = (\<lambda>name _.
        (case find (\<lambda>u. map_of (Object u) ''name'' = Some name) objects of
           None \<Rightarrow> (None, Some (Foreign ''not found''))
         | Some u \<Rightarrow> (Some u, None)))\<rparr>"

definition ex_namespaced ::
  "ex_object Unstructured list
     \<Rightarrow> (ex_object, string, unit, unit) NamespaceableResourceInterface" where
  "ex_namespaced objects =
     \<lparr>Namespace = (\<lambda>namespace. Some (ex_resource
        (filter (\<lambda>u. map_of (Object u) ''namespace'' = Some namespace) objects)))\<rparr>"

definition ex_client ::
  "ex_object Unstructured list \<Rightarrow> (ex_object, string, unit, unit) Interface" where
  "ex_client objects = \<lparr>dyn_Resource = (\<lambda>gvr. Some (ex_namespaced objects))\<rparr>"

definition ex_failing :: "(ex_object, string, unit, unit) ResourceInterface" where
  "ex_failing =
     \<lparr>ri_List = (\<lambda>_. (None, Some (Foreign ''connection refused''))),
      ri_Get = (\<lambda>_ _. (None, Some (Foreign ''connection refused'')))\<rparr>"

definition ex_unavailable :: "(ex_object, string, unit, unit) Interface" where
  "ex_unavailable =
     \<lparr>dyn_Resource = (\<lambda>gvr. Some \<lparr>Namespace = (\<lambda>namespace. Some ex_failing)\<rparr>)\<rparr>"

definition ex_gvr :: GroupVersionResource where
  "ex_gvr = \<lparr>Group = ''group'', Version = ''version'', Resource = ''pods''\<rparr>"

definition ex_gvr_v1 :: GroupVersionResource where
  "ex_gvr_v1 = \<lparr>Group = '''', Version = ''v1'', Resource = ''pods''\<rparr>"

definition ex_objects :: "ex_object Unstructured list" where
  "ex_objects =
     [ex_newUnstructured ''group/version'' ''Pod'' ''ns-foo'' ''name-foo'',
      ex_newUnstructured ''group/version'' ''Pod'' ''ns-foo'' ''name-foo2'']"

definition ex_unserializable :: "ex_object Unstructured" where
  "ex_unserializable =
     \<lparr>Object = [(''namespace'', ''ns-foo''), (''name'', ''name-bar''), (''hook'', ''func()'')]\<rparr>"


text \<open>Options with two clients and no descriptor.\<close>

definition ex_opts_clients :: "(ex_object, string, unit, unit) Option option list" where
  "ex_opts_clients =
     [WithDynamicClient (Some ex_unavailable), WithDynamicClient (Some (ex_client ex_objects))]"

text \<open>Options in which each kind occurs twice.\<close>

definition ex_opts :: "(ex_object, string, unit, unit) Option option list" where
  "ex_opts =
     [WithDynamicClient (Some ex_unavailable), WithGVRSchema ex_gvr_v1,
      WithDynamicClient (Some (ex_client ex_objects)), WithGVRSchema ex_gvr]"

text \<open>A reporter as \<open>New\<close> builds it from a client and a descriptor.\<close>

definition ex_reporter ::
  "(ex_object, string, unit, unit) Interface \<Rightarrow> (ex_object, string, unit, unit) YamlReporter"
  where
  "ex_reporter cli =
     \<lparr>dynamicCli = Some (Some cli), gvrSchema = Some ex_gvr,
      resource = dyn_Resource cli ex_gvr\<rparr>"

section \<open>Properties\<close>

subsection \<open>Lemmas on the two loops\<close>

lemma New_loop_append:
  "New_loop (xs @ ys) inst =
     (case New_loop xs inst of Panic \<Rightarrow> Panic | Return i \<Rightarrow> New_loop ys i)"
  by (induction xs inst rule: New_loop.induct) simp_all

lemma New_loop_returns:
  "None \<notin> set opts \<Longrightarrow> \<exists>i. New_loop opts inst = Return i"
  by (induction opts inst rule: New_loop.induct) simp_all

lemma New_loop_resource:
  "New_loop opts inst = Return i \<Longrightarrow> resource i = resource inst"
proof (induction opts inst rule: New_loop.induct)
  case (3 opt opts inst)
  then show ?case
    by (cases opt) (simp_all add: dynCliOption_apply_def gvrOption_apply_def)
qed simp_all

lemma New_loop_keeps_dynamicCli:
  "New_loop opts inst = Return i \<Longrightarrow> \<forall>d. WithDynamicClient d \<notin> set opts
     \<Longrightarrow> dynamicCli i = dynamicCli inst"
proof (induction opts inst rule: New_loop.induct)
  case (3 opt opts inst)
  then show ?case
    by (cases opt) (auto simp: dynCliOption_apply_def gvrOption_apply_def WithDynamicClient_def)
qed simp_all

lemma New_loop_keeps_gvrSchema:
  "New_loop opts inst = Return i \<Longrightarrow> \<forall>g. WithGVRSchema g \<notin> set opts
     \<Longrightarrow> gvrSchema i = gvrSchema inst"
proof (induction opts inst rule: New_loop.induct)
  case (3 opt opts inst)
  then show ?case
    by (cases opt) (auto simp: dynCliOption_apply_def gvrOption_apply_def WithGVRSchema_def)
qed simp_all

lemma New_loop_last_dynamicCli:
  assumes "None \<notin> set opts"
    and "opts = before @ WithDynamicClient d # after"
    and "\<forall>d'. WithDynamicClient d' \<notin> set after"
  shows "\<exists>i. New_loop opts inst = Return i \<and> dynamicCli i = Some d"
proof -
  from assms(1) obtain i where i: "New_loop opts inst = Return i"
    using New_loop_returns by blast
  from assms(1,2) obtain j where j: "New_loop before inst = Return j"
    using New_loop_returns [of before inst] by auto
  from i j assms(2) have "New_loop after (dynCliOption_apply d j) = Return i"
    by (simp add: New_loop_append WithDynamicClient_def)
  from New_loop_keeps_dynamicCli [OF this assms(3)] have "dynamicCli i = Some d"
    by (simp add: dynCliOption_apply_def)
  with i show ?thesis by blast
qed

lemma New_loop_last_gvrSchema:
  assumes "None \<notin> set opts"
    and "opts = before @ WithGVRSchema g # after"
    and "\<forall>g'. WithGVRSchema g' \<notin> set after"
  shows "\<exists>i. New_loop opts inst = Return i \<and> gvrSchema i = Some g"
proof -
  from assms(1) obtain i where i: "New_loop opts inst = Return i"
    using New_loop_returns by blast
  from assms(1,2) obtain j where j: "New_loop before inst = Return j"
    using New_loop_returns [of before inst] by auto
  from i j assms(2) have "New_loop after (gvrOption_apply g j) = Return i"
    by (simp add: New_loop_append WithGVRSchema_def)
  from New_loop_keeps_gvrSchema [OF this assms(3)] have "gvrSchema i = Some g"
    by (simp add: gvrOption_apply_def)
  with i show ?thesis by blast
qed

lemma New_loop_dynamicCli_unset:
  "New_loop opts inst = Return i \<Longrightarrow>
     (dynamicCli i = None) = (dynamicCli inst = None \<and> (\<forall>d. WithDynamicClient d \<notin> set opts))"
proof (induction opts inst rule: New_loop.induct)
  case (3 opt opts inst)
  then show ?case
    by (cases opt) (auto simp: dynCliOption_apply_def gvrOption_apply_def WithDynamicClient_def)
qed simp_all

lemma New_loop_gvrSchema_unset:
  "New_loop opts inst = Return i \<Longrightarrow>
     (gvrSchema i = None) = (gvrSchema inst = None \<and> (\<forall>g. WithGVRSchema g \<notin> set opts))"
proof (induction opts inst rule: New_loop.induct)
  case (3 opt opts inst)
  then show ?case
    by (cases opt) (auto simp: dynCliOption_apply_def gvrOption_apply_def WithGVRSchema_def)
qed simp_all

lemma New_loop_last_of_each:
  assumes "None \<notin> set opts"
    and "opts = b1 @ WithDynamicClient d # a1"
    and "\<forall>d'. WithDynamicClient d' \<notin> set a1"
    and "opts = b2 @ WithGVRSchema g # a2"
    and "\<forall>g'. WithGVRSchema g' \<notin> set a2"
  shows "New_loop opts YamlReporter_zero =
           Return \<lparr>dynamicCli = Some d, gvrSchema = Some g, resource = None\<rparr>"
proof -
  from New_loop_last_dynamicCli [OF assms(1,2,3)] obtain i
    where i: "New_loop opts YamlReporter_zero = Return i" and d: "dynamicCli i = Some d"
    by blast
  from New_loop_last_gvrSchema [OF assms(1,4,5), of YamlReporter_zero] i
  have g: "gvrSchema i = Some g"
    by simp
  from New_loop_resource [OF i] have "resource i = None"
    by (simp add: YamlReporter_zero_def)
  with d g have "i = \<lparr>dynamicCli = Some d, gvrSchema = Some g, resource = None\<rparr>"
    by simp
  with i show ?thesis by simp
qed

lemma New_returned_instance:
  assumes "New opts = Return (r, e)"
  shows "(e = None \<and> (\<exists>cli gvr. r = \<lparr>dynamicCli = Some (Some cli), gvrSchema = Some gvr,
                                      resource = dyn_Resource cli gvr\<rparr>))
       \<or> (r = YamlReporter_zero
            \<and> (e = Some NoDynamicCliSetError \<or> e = Some NoGroupVersionResourceSetError))"
proof (cases "New_loop opts YamlReporter_zero")
  case Panic
  with assms show ?thesis by (simp add: New_def)
next
  case (Return i)
  from New_loop_resource [OF this] have res: "resource i = None"
    by (simp add: YamlReporter_zero_def)
  show ?thesis
  proof (cases "checkConfig i")
    case (Some err)
    with Return assms show ?thesis
      by (auto simp: New_def checkConfig_def split: if_splits)
  next
    case None
    with Return assms res show ?thesis
      by (cases i) (auto simp: New_def split: option.splits)
  qed
qed

lemma List_loop_all_marshalled:
  "\<forall>item \<in> set items. snd (marshal (Object item)) = None \<Longrightarrow>
     List_loop marshal items resources =
       Return (Some (resources @ map (\<lambda>item. fst (marshal (Object item))) items), None)"
proof (induction items arbitrary: resources)
  case Nil
  then show ?case by simp
next
  case (Cons item items)
  then show ?case by (cases "marshal (Object item)") simp
qed

lemma List_loop_first_failure:
  "\<forall>item \<in> set good. snd (marshal (Object item)) = None \<Longrightarrow>
   snd (marshal (Object bad)) = Some err \<Longrightarrow>
     List_loop marshal (good @ bad # rest) resources = Return (None, Some err)"
proof (induction good arbitrary: resources)
  case Nil
  then show ?case by (cases "marshal (Object bad)") simp
next
  case (Cons item good)
  then show ?case by (cases "marshal (Object item)") simp
qed

lemma List_loop_some_failure:
  "item \<in> set items \<Longrightarrow> snd (marshal (Object item)) \<noteq> None \<Longrightarrow>
     \<exists>bad \<in> set items. List_loop marshal items resources
                             = Return (None, snd (marshal (Object bad)))
                           \<and> snd (marshal (Object bad)) \<noteq> None"
proof (induction items arbitrary: resources)
  case Nil
  then show ?case by simp
next
  case (Cons first items)
  show ?case
  proof (cases "snd (marshal (Object first))")
    case (Some e)
    then have "List_loop marshal (first # items) resources = Return (None, Some e)"
      by (cases "marshal (Object first)") simp
    with Some show ?thesis by auto
  next
    case None
    with Cons.prems have "item \<in> set items" by auto
    from Cons.IH [OF this Cons.prems(2), of "resources @ [fst (marshal (Object first))]"] None
    show ?thesis
      by (cases "marshal (Object first)") auto
  qed
qed

lemma List_loop_error_no_slice:
  "List_loop marshal items resources = Return (rs, Some err) \<Longrightarrow> rs = None"
proof (induction items arbitrary: resources)
  case Nil
  then show ?case by simp
next
  case (Cons item items)
  then show ?case
    by (cases "marshal (Object item)") (auto split: option.splits)
qed

subsection \<open>Where the package panics\<close>

text \<open>
  A \<^verbatim>\<open>nil\<close> element among the options, and a client option carrying the \<^verbatim>\<open>nil\<close> interface
  value as the last of its kind next to a descriptor, make \<open>New\<close> panic: \<open>checkConfig\<close>
  compares the pointer to the interface value, which \<open>dynCliOption_apply\<close> always sets.
  The zero value, which \<open>New\<close> returns next to an error, has no accessor, and both read
  operations panic on it.
\<close>

lemma New_loop_nil_option: "New_loop (before @ None # after) inst = Panic"
  by (induction "before @ None # after" inst arbitrary: before rule: New_loop.induct)
    (auto simp: Cons_eq_append_conv)

lemma New_nil_option_panics: "New (before @ None # after) = Panic"
  by (simp add: New_def New_loop_nil_option)

lemma New_nil_client_panics: "New [WithDynamicClient None, WithGVRSchema gvr] = Panic"
  by (simp add: New_def WithDynamicClient_def WithGVRSchema_def dynCliOption_apply_def
      gvrOption_apply_def checkConfig_def YamlReporter_zero_def)

lemma zero_value_panics:
  "List marshal YamlReporter_zero ctx namespace listOptions = Panic"
  "Get marshal YamlReporter_zero ctx name namespace getOptions = Panic"
  by (simp_all add: List_def Get_def YamlReporter_zero_def)

subsection \<open>Listing\<close>

text \<open>
  Claim C5. When the backing store answers the list call with no instances and no error,
  \<open>List\<close> returns the empty, non-\<^verbatim>\<open>nil\<close> slice and the \<^verbatim>\<open>nil\<close> error.
\<close>

theorem List_zero_instances:
  assumes "resource r = Some res"
    and "Namespace res namespace = Some ri"
    and "ri_List ri options = (Some unstructuredList, None)"
    and "Items unstructuredList = []"
  shows "List marshal r ctx namespace options = Return (Some [], None)"
  using assms by (simp add: List_def)

theorem List_zero_instances_witness:
  "resource (ex_reporter (ex_client ex_objects)) = Some (ex_namespaced ex_objects)
   \<and> Namespace (ex_namespaced ex_objects) ''ns-foo-other'' = Some (ex_resource [])
   \<and> ri_List (ex_resource []) () = (Some \<lparr>Items = []\<rparr>, None)
   \<and> Items \<lparr>Items = [] :: ex_object Unstructured list\<rparr> = []
   \<and> List ex_marshal (ex_reporter (ex_client ex_objects)) () ''ns-foo-other'' ()
       = Return (Some [], None)"
proof -
  have h1: "resource (ex_reporter (ex_client ex_objects)) = Some (ex_namespaced ex_objects)"
    by (simp add: ex_reporter_def ex_client_def)
  have h2: "Namespace (ex_namespaced ex_objects) ''ns-foo-other'' = Some (ex_resource [])"
    by (simp add: ex_namespaced_def ex_objects_def ex_newUnstructured_def)
  have h3: "ri_List (ex_resource []) () = (Some \<lparr>Items = []\<rparr>, None)"
    by (simp add: ex_resource_def)
  have h4: "Items \<lparr>Items = [] :: ex_object Unstructured list\<rparr> = []"
    by simp
  from List_zero_instances [OF h1 h2 h3 h4, where marshal = ex_marshal and ctx = "()"]
    h1 h2 h3 h4
  show ?thesis by simp
qed

text \<open>
  Claim C4. When the backing store answers the list call with instances and no error, and
  the serializer accepts every instance, \<open>List\<close> returns the serializations of the
  instances' objects, one per instance, in the order of the store's answer.
\<close>

theorem List_one_block_per_instance:
  assumes "resource r = Some res"
    and "Namespace res namespace = Some ri"
    and "ri_List ri options = (Some unstructuredList, None)"
    and "\<forall>item \<in> set (Items unstructuredList). snd (marshal (Object item)) = None"
  shows "List marshal r ctx namespace options =
           Return (Some (map (\<lambda>item. fst (marshal (Object item))) (Items unstructuredList)),
                   None)"
  using assms by (simp add: List_def List_loop_all_marshalled)

theorem List_one_block_per_instance_witness:
  "resource (ex_reporter (ex_client ex_objects)) = Some (ex_namespaced ex_objects)
   \<and> Namespace (ex_namespaced ex_objects) ''ns-foo'' = Some (ex_resource ex_objects)
   \<and> ri_List (ex_resource ex_objects) () = (Some \<lparr>Items = ex_objects\<rparr>, None)
   \<and> map (\<lambda>item. snd (ex_marshal (Object item))) (Items \<lparr>Items = ex_objects\<rparr>)
       = [None, None]
   \<and> List ex_marshal (ex_reporter (ex_client ex_objects)) () ''ns-foo'' ()
       = Return (Some [''apiVersion: group/version; kind: Pod; namespace: ns-foo; name: name-foo; '',
                       ''apiVersion: group/version; kind: Pod; namespace: ns-foo; name: name-foo2; ''],
                 None)"
proof -
  have h1: "resource (ex_reporter (ex_client ex_objects)) = Some (ex_namespaced ex_objects)"
    by (simp add: ex_reporter_def ex_client_def)
  have h2: "Namespace (ex_namespaced ex_objects) ''ns-foo'' = Some (ex_resource ex_objects)"
    by (simp add: ex_namespaced_def ex_objects_def ex_newUnstructured_def)
  have h3: "ri_List (ex_resource ex_objects) () = (Some \<lparr>Items = ex_objects\<rparr>, None)"
    by (simp add: ex_resource_def)
  have h4: "\<forall>item \<in> set (Items \<lparr>Items = ex_objects\<rparr>). snd (ex_marshal (Object item)) = None"
    by (simp add: ex_objects_def ex_newUnstructured_def ex_marshal_def)
  have "map (\<lambda>item. fst (ex_marshal (Object item))) (Items \<lparr>Items = ex_objects\<rparr>) =
          [''apiVersion: group/version; kind: Pod; namespace: ns-foo; name: name-foo; '',
           ''apiVersion: group/version; kind: Pod; namespace: ns-foo; name: name-foo2; '']"
    by (simp add: ex_objects_def ex_newUnstructured_def ex_marshal_def)
  moreover
  have "map (\<lambda>item. snd (ex_marshal (Object item))) (Items \<lparr>Items = ex_objects\<rparr>)
          = [None, None]"
    by (simp add: ex_objects_def ex_newUnstructured_def ex_marshal_def)
  ultimately show ?thesis
    using List_one_block_per_instance [OF h1 h2 h3 h4, where ctx = "()"] h1 h2 h3
    by simp
qed

text \<open>
  Claim C6. When the store's list call returns an error, \<open>List\<close> returns that very error
  and the \<^verbatim>\<open>nil\<close> slice. When the serializer rejects an instance (\<open>bad\<close>, the first one
  it rejects), \<open>List\<close> returns the serializer's error and the \<^verbatim>\<open>nil\<close> slice: the blocks of
  the instances before it are dropped. So \<open>List\<close> returns an error and the \<^verbatim>\<open>nil\<close> slice
  as soon as the serializer rejects any one instance of the store's answer. Whenever
  \<open>List\<close> returns an error, the slice is \<^verbatim>\<open>nil\<close>.
\<close>

theorem List_aborts_on_error:
  assumes "resource r = Some res"
    and "Namespace res namespace = Some ri"
  shows "(ri_List ri options = (unstructuredList, Some err) \<longrightarrow>
            List marshal r ctx namespace options = Return (None, Some err))
       \<and> (ri_List ri options = (Some ul, None) \<and> Items ul = good @ bad # rest
            \<and> (\<forall>item \<in> set good. snd (marshal (Object item)) = None)
            \<and> snd (marshal (Object bad)) = Some err' \<longrightarrow>
            List marshal r ctx namespace options = Return (None, Some err'))
       \<and> (ri_List ri options = (Some ul, None) \<and> item \<in> set (Items ul)
            \<and> snd (marshal (Object item)) \<noteq> None \<longrightarrow>
            (\<exists>e. List marshal r ctx namespace options = Return (None, Some e)))
       \<and> (\<forall>resources e. List marshal r ctx namespace options = Return (resources, Some e) \<longrightarrow>
            resources = None)"
proof (intro conjI impI allI)
  assume "ri_List ri options = (unstructuredList, Some err)"
  with assms show "List marshal r ctx namespace options = Return (None, Some err)"
    by (simp add: List_def)
next
  assume "ri_List ri options = (Some ul, None) \<and> Items ul = good @ bad # rest
            \<and> (\<forall>item \<in> set good. snd (marshal (Object item)) = None)
            \<and> snd (marshal (Object bad)) = Some err'"
  with assms show "List marshal r ctx namespace options = Return (None, Some err')"
    by (simp add: List_def List_loop_first_failure)
next
  assume a: "ri_List ri options = (Some ul, None) \<and> item \<in> set (Items ul)
            \<and> snd (marshal (Object item)) \<noteq> None"
  then have m: "item \<in> set (Items ul)" and n: "snd (marshal (Object item)) \<noteq> None"
    by simp_all
  from List_loop_some_failure [where marshal = marshal and resources = "[]", OF m n]
  have "\<exists>e. List_loop marshal (Items ul) [] = Return (None, Some e)"
    by auto
  with assms a show "\<exists>e. List marshal r ctx namespace options = Return (None, Some e)"
    by (auto simp: List_def)
next
  fix resources e
  assume "List marshal r ctx namespace options = Return (resources, Some e)"
  with assms show "resources = None"
    by (auto simp: List_def split: prod.splits option.splits dest: List_loop_error_no_slice)
qed

theorem List_aborts_on_error_witness:
  "List ex_marshal (ex_reporter ex_unavailable) () ''ns-foo'' ()
     = Return (None, Some (Foreign ''connection refused''))
   \<and> List ex_marshal (ex_reporter (ex_client (ex_objects @ [ex_unserializable]))) ()
       ''ns-foo'' ()
     = Return (None, Some (Foreign ''unsupported type''))"
proof -
  have u1: "resource (ex_reporter ex_unavailable) = Some \<lparr>Namespace = (\<lambda>namespace. Some ex_failing)\<rparr>"
    by (simp add: ex_reporter_def ex_unavailable_def)
  have u2: "Namespace \<lparr>Namespace = (\<lambda>namespace. Some ex_failing)\<rparr> ''ns-foo'' = Some ex_failing"
    by simp
  have u3: "ri_List ex_failing () = (None, Some (Foreign ''connection refused''))"
    by (simp add: ex_failing_def)
  have s1: "resource (ex_reporter (ex_client (ex_objects @ [ex_unserializable])))
              = Some (ex_namespaced (ex_objects @ [ex_unserializable]))"
    by (simp add: ex_reporter_def ex_client_def)
  have s2: "Namespace (ex_namespaced (ex_objects @ [ex_unserializable])) ''ns-foo''
              = Some (ex_resource (ex_objects @ [ex_unserializable]))"
    by (simp add: ex_namespaced_def ex_objects_def ex_newUnstructured_def
        ex_unserializable_def)
  have s3: "ri_List (ex_resource (ex_objects @ [ex_unserializable])) ()
              = (Some \<lparr>Items = ex_objects @ [ex_unserializable]\<rparr>, None)
            \<and> Items \<lparr>Items = ex_objects @ [ex_unserializable]\<rparr>
                = ex_objects @ ex_unserializable # []
            \<and> (\<forall>item \<in> set ex_objects. snd (ex_marshal (Object item)) = None)
            \<and> snd (ex_marshal (Object ex_unserializable)) = Some (Foreign ''unsupported type'')"
    by (simp add: ex_resource_def ex_objects_def ex_newUnstructured_def ex_marshal_def
        ex_unserializable_def)
  from List_aborts_on_error [OF u1 u2, where options = "()" and unstructuredList = None
      and err = "Foreign ''connection refused''" and marshal = ex_marshal and ctx = "()"] u3
  have "List ex_marshal (ex_reporter ex_unavailable) () ''ns-foo'' ()
          = Return (None, Some (Foreign ''connection refused''))"
    by blast
  moreover
  from List_aborts_on_error [OF s1 s2, where options = "()"
      and ul = "\<lparr>Items = ex_objects @ [ex_unserializable]\<rparr>" and good = ex_objects
      and bad = ex_unserializable and rest = "[]" and marshal = ex_marshal
      and err' = "Foreign ''unsupported type''" and ctx = "()"] s3
  have "List ex_marshal (ex_reporter (ex_client (ex_objects @ [ex_unserializable]))) ()
          ''ns-foo'' () = Return (None, Some (Foreign ''unsupported type''))"
    by blast
  ultimately show ?thesis by blast
qed

subsection \<open>Fetching one instance\<close>




text \<open>
  Claim C8. When the store's get call returns an error, not-found or any other, \<open>Get\<close>
  returns that very error, so that every classification of the store's error (such as
  \<open>IsNotFound\<close>) gives the same answer on the returned one; when the serializer rejects
  the instance, \<open>Get\<close> returns the serializer's error. In both cases, and whenever \<open>Get\<close>
  returns an error, the string is empty.
\<close>

theorem Get_empty_string_on_error:
  assumes "resource r = Some res"
    and "Namespace res namespace = Some ri"
  shows "(ri_Get ri name options = (unstructuredObj, Some err) \<longrightarrow>
            Get marshal r ctx name namespace options = Return ('''', Some err)
            \<and> (\<exists>e. Get marshal r ctx name namespace options = Return ('''', Some e)
                  \<and> IsNotFound e = IsNotFound err))
       \<and> (ri_Get ri name options = (Some obj, None)
            \<and> snd (marshal (Object obj)) = Some err' \<longrightarrow>
            Get marshal r ctx name namespace options = Return ('''', Some err'))
       \<and> (\<forall>s e. Get marshal r ctx name namespace options = Return (s, Some e) \<longrightarrow> s = '''')"
proof (intro conjI impI allI)
  assume "ri_Get ri name options = (unstructuredObj, Some err)"
  with assms show a: "Get marshal r ctx name namespace options = Return ('''', Some err)"
    by (simp add: Get_def)
  then show "\<exists>e. Get marshal r ctx name namespace options = Return ('''', Some e)
               \<and> IsNotFound e = IsNotFound err"
    by simp
next
  assume "ri_Get ri name options = (Some obj, None) \<and> snd (marshal (Object obj)) = Some err'"
  with assms show "Get marshal r ctx name namespace options = Return ('''', Some err')"
    by (cases "marshal (Object obj)") (simp add: Get_def)
next
  fix s e
  assume "Get marshal r ctx name namespace options = Return (s, Some e)"
  with assms show "s = ''''"
    by (auto simp: Get_def split: prod.splits option.splits)
qed

theorem Get_empty_string_on_error_witness:
  "Get ex_marshal (ex_reporter (ex_client [])) () ''name-foo'' ''ns-foo'' ()
     = Return ('''', Some (Foreign ''not found''))
   \<and> Get ex_marshal (ex_reporter ex_unavailable) () ''name-foo'' ''ns-foo'' ()
     = Return ('''', Some (Foreign ''connection refused''))
   \<and> Get ex_marshal (ex_reporter (ex_client [ex_unserializable])) () ''name-bar'' ''ns-foo'' ()
     = Return ('''', Some (Foreign ''unsupported type''))"
proof -
  have n1: "resource (ex_reporter (ex_client [])) = Some (ex_namespaced [])"
    by (simp add: ex_reporter_def ex_client_def)
  have n2: "Namespace (ex_namespaced []) ''ns-foo'' = Some (ex_resource [])"
    by (simp add: ex_namespaced_def)
  have n3: "ri_Get (ex_resource []) ''name-foo'' () = (None, Some (Foreign ''not found''))"
    by (simp add: ex_resource_def)
  have u1: "resource (ex_reporter ex_unavailable)
              = Some \<lparr>Namespace = (\<lambda>namespace. Some ex_failing)\<rparr>"
    by (simp add: ex_reporter_def ex_unavailable_def)
  have u2: "Namespace \<lparr>Namespace = (\<lambda>namespace. Some ex_failing)\<rparr> ''ns-foo'' = Some ex_failing"
    by simp
  have u3: "ri_Get ex_failing ''name-foo'' () = (None, Some (Foreign ''connection refused''))"
    by (simp add: ex_failing_def)
  have s1: "resource (ex_reporter (ex_client [ex_unserializable]))
              = Some (ex_namespaced [ex_unserializable])"
    by (simp add: ex_reporter_def ex_client_def)
  have s2: "Namespace (ex_namespaced [ex_unserializable]) ''ns-foo''
              = Some (ex_resource [ex_unserializable])"
    by (simp add: ex_namespaced_def ex_unserializable_def)
  have s3: "ri_Get (ex_resource [ex_unserializable]) ''name-bar'' ()
              = (Some ex_unserializable, None)
            \<and> snd (ex_marshal (Object ex_unserializable)) = Some (Foreign ''unsupported type'')"
    by (simp add: ex_resource_def ex_unserializable_def ex_marshal_def)
  from Get_empty_string_on_error [OF n1 n2, where name = "''name-foo''" and options = "()"
      and unstructuredObj = None and err = "Foreign ''not found''" and marshal = ex_marshal
      and ctx = "()"] n3
  have "Get ex_marshal (ex_reporter (ex_client [])) () ''name-foo'' ''ns-foo'' ()
          = Return ('''', Some (Foreign ''not found''))"
    by blast
  moreover
  from Get_empty_string_on_error [OF u1 u2, where name = "''name-foo''" and options = "()"
      and unstructuredObj = None and err = "Foreign ''connection refused''"
      and marshal = ex_marshal and ctx = "()"] u3
  have "Get ex_marshal (ex_reporter ex_unavailable) () ''name-foo'' ''ns-foo'' ()
          = Return ('''', Some (Foreign ''connection refused''))"
    by blast
  moreover
  from Get_empty_string_on_error [OF s1 s2, where name = "''name-bar''" and options = "()"
      and obj = ex_unserializable and err' = "Foreign ''unsupported type''"
      and marshal = ex_marshal and ctx = "()"] s3
  have "Get ex_marshal (ex_reporter (ex_client [ex_unserializable])) () ''name-bar''
          ''ns-foo'' () = Return ('''', Some (Foreign ''unsupported type''))"
    by blast
  ultimately show ?thesis by blast
qed

subsection \<open>The context parameter\<close>

text \<open>
  Claim C9. Neither operation reads its context: with the other arguments, the store and
  the serializer the same, any two contexts give the same result.
\<close>

theorem context_is_unused:
  "List marshal r ctx namespace listOptions = List marshal r ctx' namespace listOptions
   \<and> Get marshal r ctx name namespace getOptions = Get marshal r ctx' name namespace getOptions"
  by (simp add: List_def Get_def)

subsection \<open>Construction\<close>

text \<open>
  Claim C2. Let every element of the option sequence be an option, so that the loop over
  the options runs to its end. If the client field is then unset, which is the case
  exactly when no option of the sequence sets a client, \<open>New\<close> returns
  \<open>NoDynamicCliSetError\<close>, whether the descriptor is set or not. If the client field is
  set and the descriptor field is unset, \<open>New\<close> returns \<open>NoGroupVersionResourceSetError\<close>.
  Either way one error is returned.
\<close>

theorem New_missing_configuration:
  assumes "None \<notin> set opts"
  shows "\<exists>inst. New_loop opts YamlReporter_zero = Return inst
       \<and> (dynamicCli inst = None \<longrightarrow>
            New opts = Return (YamlReporter_zero, Some NoDynamicCliSetError))
       \<and> (dynamicCli inst \<noteq> None \<and> gvrSchema inst = None \<longrightarrow>
            New opts = Return (YamlReporter_zero, Some NoGroupVersionResourceSetError))
       \<and> ((dynamicCli inst = None) = (\<forall>d. WithDynamicClient d \<notin> set opts))
       \<and> ((gvrSchema inst = None) = (\<forall>g. WithGVRSchema g \<notin> set opts))"
proof -
  from assms obtain inst where i: "New_loop opts YamlReporter_zero = Return inst"
    using New_loop_returns by blast
  from i New_loop_dynamicCli_unset [OF i] New_loop_gvrSchema_unset [OF i]
  show ?thesis
    by (simp add: New_def checkConfig_def YamlReporter_zero_def)
qed

theorem New_missing_configuration_witness:
  "New [WithGVRSchema ex_gvr :: (ex_object, string, unit, unit) Option option]
     = Return (YamlReporter_zero, Some NoDynamicCliSetError)
   \<and> New ([] :: (ex_object, string, unit, unit) Option option list)
     = Return (YamlReporter_zero, Some NoDynamicCliSetError)
   \<and> New [WithDynamicClient (Some (ex_client ex_objects))]
     = Return (YamlReporter_zero, Some NoGroupVersionResourceSetError)"
proof -
  have g: "None \<notin> set [WithGVRSchema ex_gvr :: (ex_object, string, unit, unit) Option option]"
    by (simp add: WithGVRSchema_def)
  have n: "None \<notin> set ([] :: (ex_object, string, unit, unit) Option option list)"
    by simp
  have c: "None \<notin> set [WithDynamicClient (Some (ex_client ex_objects))]"
    by (simp add: WithDynamicClient_def)
  from New_missing_configuration [OF g]
  have "New [WithGVRSchema ex_gvr :: (ex_object, string, unit, unit) Option option]
          = Return (YamlReporter_zero, Some NoDynamicCliSetError)"
    by (auto simp: WithGVRSchema_def WithDynamicClient_def)
  moreover
  from New_missing_configuration [OF n]
  have "New ([] :: (ex_object, string, unit, unit) Option option list)
          = Return (YamlReporter_zero, Some NoDynamicCliSetError)"
    by auto
  moreover
  from New_missing_configuration [OF c]
  have "New [WithDynamicClient (Some (ex_client ex_objects))]
          = Return (YamlReporter_zero, Some NoGroupVersionResourceSetError)"
    by (auto simp: WithGVRSchema_def WithDynamicClient_def)
  ultimately show ?thesis by blast
qed

text \<open>
  Claim C3. Whenever \<open>New\<close> returns an error, the instance it returns with it is the zero
  value, and the error is one of the two configuration errors.
\<close>

theorem New_failure_returns_zero_value:
  assumes "New opts = Return (r, Some err)"
  shows "r = YamlReporter_zero
       \<and> (err = NoDynamicCliSetError \<or> err = NoGroupVersionResourceSetError)"
  using New_returned_instance [OF assms] by auto

theorem New_failure_returns_zero_value_witness:
  "New [WithDynamicClient (Some (ex_client ex_objects))]
     = Return (\<lparr>dynamicCli = None, gvrSchema = None, resource = None\<rparr>,
               Some NoGroupVersionResourceSetError)
   \<and> \<lparr>dynamicCli = None, gvrSchema = None, resource = None\<rparr>
       = (YamlReporter_zero :: (ex_object, string, unit, unit) YamlReporter)"
proof -
  have h: "New [WithDynamicClient (Some (ex_client ex_objects))]
             = Return (\<lparr>dynamicCli = None, gvrSchema = None, resource = None\<rparr>,
                       Some NoGroupVersionResourceSetError)"
    by (simp add: New_def WithDynamicClient_def dynCliOption_apply_def checkConfig_def
        YamlReporter_zero_def)
  from New_failure_returns_zero_value [OF h] h show ?thesis by blast
qed

text \<open>
  Claim C1. Let every element of the option sequence be an option, let the last option
  that sets a client carry a client \<open>cli\<close> (an interface value that is not \<^verbatim>\<open>nil\<close>) and
  the last option that sets a descriptor carry \<open>gvr\<close>. Then \<open>New\<close> returns no error and
  the instance holding \<open>cli\<close>, \<open>gvr\<close> and the accessor \<open>cli\<close> gives for \<open>gvr\<close>. On every
  path on which \<open>New\<close> returns, the instance is either of that form, with no error, or
  the zero value, with an error.
\<close>

theorem New_succeeds_with_client_and_descriptor:
  "(None \<notin> set opts
      \<and> opts = b1 @ WithDynamicClient (Some cli) # a1 \<and> (\<forall>d. WithDynamicClient d \<notin> set a1)
      \<and> opts = b2 @ WithGVRSchema gvr # a2 \<and> (\<forall>g. WithGVRSchema g \<notin> set a2) \<longrightarrow>
    New opts = Return (\<lparr>dynamicCli = Some (Some cli), gvrSchema = Some gvr,
                         resource = dyn_Resource cli gvr\<rparr>, None))
   \<and> (\<forall>r e. New opts = Return (r, e) \<longrightarrow>
         (e = None \<and> (\<exists>cli' gvr'. r = \<lparr>dynamicCli = Some (Some cli'), gvrSchema = Some gvr',
                                         resource = dyn_Resource cli' gvr'\<rparr>))
         \<or> (e \<noteq> None \<and> r = YamlReporter_zero))"
proof (intro conjI impI allI)
  assume "None \<notin> set opts
      \<and> opts = b1 @ WithDynamicClient (Some cli) # a1 \<and> (\<forall>d. WithDynamicClient d \<notin> set a1)
      \<and> opts = b2 @ WithGVRSchema gvr # a2 \<and> (\<forall>g. WithGVRSchema g \<notin> set a2)"
  then have "New_loop opts YamlReporter_zero =
               Return \<lparr>dynamicCli = Some (Some cli), gvrSchema = Some gvr, resource = None\<rparr>"
    using New_loop_last_of_each [of opts b1 "Some cli" a1 b2 gvr a2] by blast
  then show "New opts = Return (\<lparr>dynamicCli = Some (Some cli), gvrSchema = Some gvr,
                                   resource = dyn_Resource cli gvr\<rparr>, None)"
    by (simp add: New_def checkConfig_def)
next
  fix r e
  assume "New opts = Return (r, e)"
  from New_returned_instance [OF this]
  show "(e = None \<and> (\<exists>cli' gvr'. r = \<lparr>dynamicCli = Some (Some cli'), gvrSchema = Some gvr',
                                        resource = dyn_Resource cli' gvr'\<rparr>))
        \<or> (e \<noteq> None \<and> r = YamlReporter_zero)"
    by auto
qed

theorem New_succeeds_with_client_and_descriptor_witness:
  "New ex_opts = Return (ex_reporter (ex_client ex_objects), None)
   \<and> resource (ex_reporter (ex_client ex_objects)) = Some (ex_namespaced ex_objects)"
proof -
  have h: "None \<notin> set ex_opts
      \<and> ex_opts = [WithDynamicClient (Some ex_unavailable), WithGVRSchema ex_gvr_v1]
          @ WithDynamicClient (Some (ex_client ex_objects)) # [WithGVRSchema ex_gvr]
      \<and> (\<forall>d. WithDynamicClient d \<notin> set [WithGVRSchema ex_gvr])
      \<and> ex_opts = [WithDynamicClient (Some ex_unavailable), WithGVRSchema ex_gvr_v1,
                    WithDynamicClient (Some (ex_client ex_objects))]
          @ WithGVRSchema ex_gvr # []
      \<and> (\<forall>g. WithGVRSchema g \<notin> set [])"
    by (simp add: ex_opts_def WithDynamicClient_def WithGVRSchema_def)
  from New_succeeds_with_client_and_descriptor [where opts = ex_opts
      and ?b1.0 = "[WithDynamicClient (Some ex_unavailable), WithGVRSchema ex_gvr_v1]"
      and cli = "ex_client ex_objects" and ?a1.0 = "[WithGVRSchema ex_gvr]"
      and ?b2.0 = "[WithDynamicClient (Some ex_unavailable), WithGVRSchema ex_gvr_v1,
                    WithDynamicClient (Some (ex_client ex_objects))]"
      and gvr = ex_gvr and ?a2.0 = "[]"] h
  have "New ex_opts = Return (ex_reporter (ex_client ex_objects), None)"
    unfolding ex_reporter_def by blast
  then show ?thesis
    by (simp add: ex_reporter_def ex_client_def)
qed

text \<open>
  Claim C10. Let every element of the option sequence be an option. If the sequence holds
  an option setting the client \<open>d\<close> with no client option after it, the loop leaves \<open>d\<close>
  in the client field, whatever the earlier options set and whether or not a descriptor
  is set; likewise for the descriptor \<open>g\<close>. With both, \<open>New\<close> returns, with no error, the
  instance holding the last client, the last descriptor and the accessor that client
  gives for that descriptor (and panics when the last client option carries the \<^verbatim>\<open>nil\<close>
  interface value), which is what it gives for these two options alone. With client
  options and no descriptor option, however many, \<open>New\<close> returns
  \<open>NoGroupVersionResourceSetError\<close>.
\<close>

theorem New_last_occurrence_wins:
  assumes "None \<notin> set opts"
  shows "(opts = b1 @ WithDynamicClient d # a1 \<and> (\<forall>d'. WithDynamicClient d' \<notin> set a1) \<longrightarrow>
            (\<exists>inst. New_loop opts YamlReporter_zero = Return inst \<and> dynamicCli inst = Some d))
       \<and> (opts = b2 @ WithGVRSchema g # a2 \<and> (\<forall>g'. WithGVRSchema g' \<notin> set a2) \<longrightarrow>
            (\<exists>inst. New_loop opts YamlReporter_zero = Return inst \<and> gvrSchema inst = Some g))
       \<and> (opts = b1 @ WithDynamicClient d # a1 \<and> (\<forall>d'. WithDynamicClient d' \<notin> set a1)
            \<and> opts = b2 @ WithGVRSchema g # a2 \<and> (\<forall>g'. WithGVRSchema g' \<notin> set a2) \<longrightarrow>
            New opts =
              (case d of
                 None \<Rightarrow> Panic
               | Some cli \<Rightarrow>
                   Return (\<lparr>dynamicCli = Some (Some cli), gvrSchema = Some g,
                            resource = dyn_Resource cli g\<rparr>, None))
            \<and> New opts = New [WithDynamicClient d, WithGVRSchema g])
       \<and> (opts = b1 @ WithDynamicClient d # a1 \<and> (\<forall>d'. WithDynamicClient d' \<notin> set a1)
            \<and> (\<forall>g'. WithGVRSchema g' \<notin> set opts) \<longrightarrow>
            New opts = Return (YamlReporter_zero, Some NoGroupVersionResourceSetError))"
proof (intro conjI impI)
  assume "opts = b1 @ WithDynamicClient d # a1 \<and> (\<forall>d'. WithDynamicClient d' \<notin> set a1)"
  with assms show "\<exists>inst. New_loop opts YamlReporter_zero = Return inst
                      \<and> dynamicCli inst = Some d"
    using New_loop_last_dynamicCli [of opts b1 d a1 YamlReporter_zero] by blast
next
  assume "opts = b2 @ WithGVRSchema g # a2 \<and> (\<forall>g'. WithGVRSchema g' \<notin> set a2)"
  with assms show "\<exists>inst. New_loop opts YamlReporter_zero = Return inst
                      \<and> gvrSchema inst = Some g"
    using New_loop_last_gvrSchema [of opts b2 g a2 YamlReporter_zero] by blast
next
  assume both: "opts = b1 @ WithDynamicClient d # a1 \<and> (\<forall>d'. WithDynamicClient d' \<notin> set a1)
            \<and> opts = b2 @ WithGVRSchema g # a2 \<and> (\<forall>g'. WithGVRSchema g' \<notin> set a2)"
  with assms have loop: "New_loop opts YamlReporter_zero =
      Return \<lparr>dynamicCli = Some d, gvrSchema = Some g, resource = None\<rparr>"
    using New_loop_last_of_each [of opts b1 d a1 b2 g a2] by blast
  then show "New opts =
              (case d of
                 None \<Rightarrow> Panic
               | Some cli \<Rightarrow>
                   Return (\<lparr>dynamicCli = Some (Some cli), gvrSchema = Some g,
                            resource = dyn_Resource cli g\<rparr>, None))"
    by (cases d) (simp_all add: New_def checkConfig_def)
  have "New_loop [WithDynamicClient d, WithGVRSchema g] YamlReporter_zero =
          Return \<lparr>dynamicCli = Some d, gvrSchema = Some g, resource = None\<rparr>"
    by (simp add: WithDynamicClient_def WithGVRSchema_def dynCliOption_apply_def
        gvrOption_apply_def YamlReporter_zero_def)
  with loop show "New opts = New [WithDynamicClient d, WithGVRSchema g]"
    by (simp add: New_def)
next
  assume only: "opts = b1 @ WithDynamicClient d # a1 \<and> (\<forall>d'. WithDynamicClient d' \<notin> set a1)
            \<and> (\<forall>g'. WithGVRSchema g' \<notin> set opts)"
  with assms obtain inst where i: "New_loop opts YamlReporter_zero = Return inst"
    and d: "dynamicCli inst = Some d"
    using New_loop_last_dynamicCli [of opts b1 d a1 YamlReporter_zero] by blast
  from only have "\<forall>g'. WithGVRSchema g' \<notin> set opts"
    by blast
  with New_loop_gvrSchema_unset [OF i] have "gvrSchema inst = None"
    by (simp add: YamlReporter_zero_def)
  with i d show "New opts = Return (YamlReporter_zero, Some NoGroupVersionResourceSetError)"
    by (simp add: New_def checkConfig_def)
qed

theorem New_last_occurrence_wins_witness:
  "New ex_opts =
     Return (\<lparr>dynamicCli = Some (Some (ex_client ex_objects)), gvrSchema = Some ex_gvr,
              resource = dyn_Resource (ex_client ex_objects) ex_gvr\<rparr>, None)
   \<and> New ex_opts = New [WithDynamicClient (Some (ex_client ex_objects)), WithGVRSchema ex_gvr]
   \<and> (\<exists>inst. New_loop ex_opts_clients YamlReporter_zero = Return inst
          \<and> dynamicCli inst = Some (Some (ex_client ex_objects)))
   \<and> New ex_opts_clients = Return (YamlReporter_zero, Some NoGroupVersionResourceSetError)"
proof -
  have h1: "None \<notin> set ex_opts"
    by (simp add: ex_opts_def WithDynamicClient_def WithGVRSchema_def)
  have h2: "ex_opts = [WithDynamicClient (Some ex_unavailable), WithGVRSchema ex_gvr_v1]
              @ WithDynamicClient (Some (ex_client ex_objects)) # [WithGVRSchema ex_gvr]
          \<and> (\<forall>d'. WithDynamicClient d' \<notin> set [WithGVRSchema ex_gvr
                :: (ex_object, string, unit, unit) Option option])
          \<and> ex_opts = [WithDynamicClient (Some ex_unavailable), WithGVRSchema ex_gvr_v1,
                        WithDynamicClient (Some (ex_client ex_objects))]
              @ WithGVRSchema ex_gvr # []
          \<and> (\<forall>g'. WithGVRSchema g'
                \<notin> set ([] :: (ex_object, string, unit, unit) Option option list))"
    by (simp add: ex_opts_def WithDynamicClient_def WithGVRSchema_def)
  have c1: "None \<notin> set ex_opts_clients"
    by (simp add: ex_opts_clients_def WithDynamicClient_def)
  have c2: "ex_opts_clients = [WithDynamicClient (Some ex_unavailable)]
              @ WithDynamicClient (Some (ex_client ex_objects)) # []
          \<and> (\<forall>d'. WithDynamicClient d'
                \<notin> set ([] :: (ex_object, string, unit, unit) Option option list))"
    by (simp add: ex_opts_clients_def)
  have c3: "\<forall>g'. WithGVRSchema g' \<notin> set ex_opts_clients"
    by (simp add: ex_opts_clients_def WithDynamicClient_def WithGVRSchema_def)
  note both = New_last_occurrence_wins [OF h1,
      where ?b1.0 = "[WithDynamicClient (Some ex_unavailable), WithGVRSchema ex_gvr_v1]"
      and d = "Some (ex_client ex_objects)" and ?a1.0 = "[WithGVRSchema ex_gvr]"
      and ?b2.0 = "[WithDynamicClient (Some ex_unavailable), WithGVRSchema ex_gvr_v1,
                    WithDynamicClient (Some (ex_client ex_objects))]"
      and g = ex_gvr and ?a2.0 = "[]"]
  note clients = New_last_occurrence_wins [OF c1,
      where ?b1.0 = "[WithDynamicClient (Some ex_unavailable)]"
      and d = "Some (ex_client ex_objects)" and ?a1.0 = "[]"]
  from both h2 have "New ex_opts =
     Return (\<lparr>dynamicCli = Some (Some (ex_client ex_objects)), gvrSchema = Some ex_gvr,
              resource = dyn_Resource (ex_client ex_objects) ex_gvr\<rparr>, None)
   \<and> New ex_opts = New [WithDynamicClient (Some (ex_client ex_objects)), WithGVRSchema ex_gvr]"
    by (simp only: option.case) blast
  moreover from clients c2 c3
  have "(\<exists>inst. New_loop ex_opts_clients YamlReporter_zero = Return inst
          \<and> dynamicCli inst = Some (Some (ex_client ex_objects)))
   \<and> New ex_opts_clients = Return (YamlReporter_zero, Some NoGroupVersionResourceSetError)"
    by blast
  ultimately show ?thesis by blast
qed

end
